theory Spec2Isabelle
  imports Main
begin

section \<open>Python string primitives used by fetch\_qrz\_data.py\<close>

text \<open>
  A Python \<open>str\<close> is a sequence of code points. A \<open>char\<close> stands for a code point
  below 256, so a \<open>string\<close> is a text of such code points; the tables below are those
  of Python 3 on that range. Two code points of the range have their upper case outside
  it (U+00B5 and U+00FF): \<open>closed_text\<close> holds of a text without them, and a statement
  about the case conversion of an arbitrary text carries it as a hypothesis.
\<close>

definition cp :: "char \<Rightarrow> nat" where
  "cp c = of_char c"

text \<open>The letters that \<open>str.lower()\<close> changes.\<close>

definition is_upper :: "char \<Rightarrow> bool" where
  "is_upper c = ((65 \<le> cp c \<and> cp c \<le> 90) \<or> (192 \<le> cp c \<and> cp c \<le> 214)
      \<or> (216 \<le> cp c \<and> cp c \<le> 222))"

text \<open>The letters whose upper case is the code point 32 below.\<close>

definition is_lower :: "char \<Rightarrow> bool" where
  "is_lower c = ((97 \<le> cp c \<and> cp c \<le> 122) \<or> (224 \<le> cp c \<and> cp c \<le> 246)
      \<or> (248 \<le> cp c \<and> cp c \<le> 254))"

text \<open>The cased characters, which \<open>str.title()\<close> looks at.\<close>

definition is_cased :: "char \<Rightarrow> bool" where
  "is_cased c = ((65 \<le> cp c \<and> cp c \<le> 90) \<or> (97 \<le> cp c \<and> cp c \<le> 122)
      \<or> cp c = 170 \<or> cp c = 181 \<or> cp c = 186
      \<or> (192 \<le> cp c \<and> cp c \<le> 214) \<or> (216 \<le> cp c \<and> cp c \<le> 246)
      \<or> (248 \<le> cp c \<and> cp c \<le> 255))"

text \<open>The characters \<open>\d\<close> matches.\<close>

definition is_digit :: "char \<Rightarrow> bool" where
  "is_digit c = (48 \<le> cp c \<and> cp c \<le> 57)"

text \<open>The whitespace of \<open>str.split()\<close> and \<open>str.strip()\<close>.\<close>

definition is_space :: "char \<Rightarrow> bool" where
  "is_space c = ((9 \<le> cp c \<and> cp c \<le> 13) \<or> (28 \<le> cp c \<and> cp c \<le> 32)
      \<or> cp c = 133 \<or> cp c = 160)"



text \<open>
  The upper case and the title case of one character: a text, since U+00DF becomes two
  letters. The lower case is always one character.
\<close>

definition upper_char :: "char \<Rightarrow> string" where
  "upper_char c =
     (if is_lower c then [char_of (cp c - 32)] else if cp c = 223 then ''SS'' else [c])"

definition title_char :: "char \<Rightarrow> string" where
  "title_char c =
     (if is_lower c then [char_of (cp c - 32)] else if cp c = 223 then ''Ss'' else [c])"

definition lower_char :: "char \<Rightarrow> char" where
  "lower_char c = (if is_upper c then char_of (cp c + 32) else c)"

text \<open>\<open>str.upper()\<close> and \<open>str.lower()\<close>.\<close>

definition upper :: "string \<Rightarrow> string" where
  "upper s = concat (map upper_char s)"

definition lower :: "string \<Rightarrow> string" where
  "lower s = map lower_char s"

text \<open>
  \<open>str.title()\<close>: a character that follows a cased character is lower-cased, any other
  character is title-cased; the flag is whether the previous character was cased.
\<close>

fun title_from :: "bool \<Rightarrow> string \<Rightarrow> string" where
  "title_from prev [] = []"
| "title_from prev (c # cs) =
     (if prev then [lower_char c] else title_char c) @ title_from (is_cased c) cs"

definition title :: "string \<Rightarrow> string" where
  "title s = title_from False s"

text \<open>\<open>str.split()\<close> with no argument: split at runs of whitespace, no empty words.\<close>

fun split_ws_acc :: "string \<Rightarrow> string \<Rightarrow> string list" where
  "split_ws_acc [] cur = (if cur = [] then [] else [cur])"
| "split_ws_acc (c # cs) cur =
     (if is_space c then (if cur = [] then split_ws_acc cs [] else cur # split_ws_acc cs [])
      else split_ws_acc cs (cur @ [c]))"

definition split_ws :: "string \<Rightarrow> string list" where
  "split_ws s = split_ws_acc s []"

text \<open>\<open>str.split(sep)\<close> for a one-character separator: empty pieces are kept.\<close>

fun split_on_acc :: "char \<Rightarrow> string \<Rightarrow> string \<Rightarrow> string list" where
  "split_on_acc d [] cur = [cur]"
| "split_on_acc d (c # cs) cur =
     (if c = d then cur # split_on_acc d cs [] else split_on_acc d cs (cur @ [c]))"

definition split_on :: "char \<Rightarrow> string \<Rightarrow> string list" where
  "split_on d s = split_on_acc d s []"

text \<open>\<open>' '.join(ws)\<close>.\<close>

fun join_sp :: "string list \<Rightarrow> string" where
  "join_sp [] = []"
| "join_sp [w] = w"
| "join_sp (w # v # ws) = w @ CHR '' '' # join_sp (v # ws)"

text \<open>\<open>str.strip()\<close> and \<open>str.rstrip(',')\<close>.\<close>

definition strip :: "string \<Rightarrow> string" where
  "strip s = rev (dropWhile is_space (rev (dropWhile is_space s)))"

definition rstrip_comma :: "string \<Rightarrow> string" where
  "rstrip_comma s = rev (dropWhile (\<lambda>c. c = CHR '','') (rev s))"

text \<open>\<open>str.find(sub)\<close>: the lowest index of an occurrence, \<open>-1\<close> when there is none.\<close>

fun find_from :: "string \<Rightarrow> string \<Rightarrow> nat \<Rightarrow> int" where
  "find_from sub [] i = (if sub = [] then int i else - 1)"
| "find_from sub (c # cs) i =
     (if take (length sub) (c # cs) = sub then int i else find_from sub cs (Suc i))"

definition py_find :: "string \<Rightarrow> string \<Rightarrow> int" where
  "py_find s sub = find_from sub s 0"

text \<open>\<open>sub in s\<close>.\<close>

definition py_in :: "string \<Rightarrow> string \<Rightarrow> bool" where
  "py_in sub s = (py_find s sub \<noteq> - 1)"

text \<open>\<open>s[start:end]\<close> with Python's treatment of negative and out-of-range bounds.\<close>

definition py_slice :: "string \<Rightarrow> int \<Rightarrow> int \<Rightarrow> string" where
  "py_slice s start end =
     (let n = int (length s);
          lo = (if start < 0 then max 0 (start + n) else min start n);
          hi = (if end < 0 then max 0 (end + n) else min end n)
      in take (nat (hi - lo)) (drop (nat lo) s))"

section \<open>Field extraction\<close>

text \<open>
  \<open>extract_xml_value(xml_data, field)\<close>: the start index is the result of \<open>find\<close> plus
  the length of the opening tag, and it is this sum that is compared with \<open>-1\<close>.
\<close>

definition extract_xml_value :: "string \<Rightarrow> string \<Rightarrow> string option" where
  "extract_xml_value xml_data field =
     (let start = py_find xml_data (''<'' @ field @ ''>'') + int (length (''<'' @ field @ ''>''));
          end = py_find xml_data (''</'' @ field @ ''>'')
      in if start \<noteq> - 1 \<and> end \<noteq> - 1 then Some (py_slice xml_data start end) else None)"

section \<open>License class mapping\<close>

text \<open>\<open>map_license_class(class_code)\<close>: \<open>class_map.get(class_code, 'Unknown Class')\<close>.\<close>

definition class_map :: "(string \<times> string) list" where
  "class_map = [(''E'', ''Extra''), (''G'', ''General''), (''T'', ''Technician''),
                (''A'', ''Advanced''), (''C'', ''Club'')]"

definition map_license_class :: "string option \<Rightarrow> string" where
  "map_license_class class_code =
     (case class_code of
        None \<Rightarrow> ''Unknown Class''
      | Some k \<Rightarrow> (case map_of class_map k of Some v \<Rightarrow> v | None \<Rightarrow> ''Unknown Class''))"

section \<open>Exceptions\<close>

text \<open>
  The exceptions the script can meet, each with the text \<open>str(e)\<close> gives.
  \<open>DbError\<close> stands for \<open>pyodbc.Error\<close>, \<open>RequestException\<close> for the errors of the
  HTTP library, \<open>PyException\<close> for a plain \<open>Exception\<close>.
\<close>

datatype py_exc =
    PyException string
  | ValueError string
  | TypeError string
  | AttributeError string
  | DbError string
  | RequestException string

fun exc_str :: "py_exc \<Rightarrow> string" where
  "exc_str (PyException m) = m"
| "exc_str (ValueError m) = m"
| "exc_str (TypeError m) = m"
| "exc_str (AttributeError m) = m"
| "exc_str (DbError m) = m"
| "exc_str (RequestException m) = m"

text \<open>The text an f-string gives for an optional string: \<open>None\<close> prints as the word.\<close>

definition fmt_opt :: "string option \<Rightarrow> string" where
  "fmt_opt x = (case x of None \<Rightarrow> ''None'' | Some s \<Rightarrow> s)"

text \<open>A text between single quotes, and the message of a method call on \<open>None\<close>.\<close>

definition quoted :: "string \<Rightarrow> string" where
  "quoted s = CHR 0x27 # s @ [CHR 0x27]"

definition none_has_no :: "string \<Rightarrow> string" where
  "none_has_no attr = quoted ''NoneType'' @ '' object has no attribute '' @ quoted attr"

section \<open>Name normalisation\<close>

text \<open>
  \<open>s.split(d)[0]\<close>. \<open>split\<close> never returns an empty list, so the first branch is never
  taken.
\<close>

definition split_first :: "char \<Rightarrow> string \<Rightarrow> string" where
  "split_first d s = (case split_on d s of [] \<Rightarrow> [] | p # _ \<Rightarrow> p)"

text \<open>\<open>normalize_first_name(name)\<close>: the comparison form of a first name.\<close>

definition normalize_first_name :: "string \<Rightarrow> string" where
  "normalize_first_name name =
     (let name' = title (join_sp (split_ws name));
          parts = split_on CHR '' '' name'
      in if length parts > 1 \<and> length (hd parts) = 1 then join_sp (tl parts) else name')"

text \<open>\<open>normalize_name(name)\<close>: the first word.\<close>

definition normalize_name :: "string \<Rightarrow> string" where
  "normalize_name name = split_first CHR '' '' (join_sp (split_ws name))"

text \<open>
  The name derivation of \<open>parse_callsign_data\<close>, from the extracted \<open>fname\<close> and
  \<open>name\<close> fields to the stored first and last name. A method call on \<open>None\<close> raises
  \<open>AttributeError\<close>.
\<close>

definition derive_names :: "string option \<Rightarrow> string option \<Rightarrow> py_exc + string \<times> string" where
  "derive_names fname lname =
     (let last_name =
            (case lname of
               None \<Rightarrow> None
             | Some l \<Rightarrow> if l \<noteq> [] then Some (strip (split_first CHR '','' l)) else Some l)
      in if fname = None \<or> fname = Some [] then
           (case last_name of
              None \<Rightarrow> Inl (AttributeError (none_has_no ''split''))
            | Some l \<Rightarrow>
                (let name_parts = split_on CHR '' '' l
                 in Inr (split_first CHR '' '' l,
                         if length name_parts > 1 then join_sp (tl name_parts)
                         else split_first CHR '' '' l)))
         else
           (case last_name of
              None \<Rightarrow> Inl (AttributeError (none_has_no ''title''))
            | Some l \<Rightarrow>
                (let first_name = title (the fname);
                     words = split_ws first_name
                 in Inr (case words of
                           [] \<Rightarrow> first_name
                         | w # ws \<Rightarrow> join_sp (w # filter (\<lambda>v. length v > 1) ws),
                         title l))))"

section \<open>Record normalisation\<close>

record Callsign =
  call :: "string option"
  xref :: "string option"
  first_name :: string
  last_name :: string
  address :: "string option"
  town :: "string option"
  state :: "string option"
  zip_code :: "string option"
  country :: "string option"
  license_start :: "string option"
  license_end :: "string option"
  license_class :: string
  email :: "string option"
  status :: string

text \<open>A date field keeps what precedes its first space, when it is present and non-empty.\<close>

definition date_part :: "string option \<Rightarrow> string option" where
  "date_part x =
     (case x of
        None \<Rightarrow> None
      | Some s \<Rightarrow> if s \<noteq> [] then Some (split_first CHR '' '' s) else Some s)"

text \<open>\<open>parse_callsign_data(xml_data)\<close>; the status is the constructor's default.\<close>

definition parse_callsign_data :: "string \<Rightarrow> py_exc + Callsign" where
  "parse_callsign_data xml_data =
     (case derive_names (extract_xml_value xml_data ''fname'') (extract_xml_value xml_data ''name'') of
        Inl e \<Rightarrow> Inl e
      | Inr (fn, ln) \<Rightarrow>
          Inr \<lparr> call = extract_xml_value xml_data ''call'',
                xref = extract_xml_value xml_data ''xref'',
                first_name = fn,
                last_name = ln,
                address = extract_xml_value xml_data ''addr1'',
                town = extract_xml_value xml_data ''addr2'',
                state = extract_xml_value xml_data ''state'',
                zip_code = extract_xml_value xml_data ''zip'',
                country = extract_xml_value xml_data ''country'',
                license_start = date_part (extract_xml_value xml_data ''efdate''),
                license_end = date_part (extract_xml_value xml_data ''expdate''),
                license_class = map_license_class (extract_xml_value xml_data ''class''),
                email = extract_xml_value xml_data ''email'',
                status = ''Active'' \<rparr>)"

section \<open>Identifier cleaning\<close>

text \<open>
  \<open>re.sub(r'/SK\d+', '', s)\<close>: scanning from the left, every occurrence of \<open>/SK\<close>
  followed by at least one digit is removed together with all the digits that follow.
\<close>

function sub_sk :: "string \<Rightarrow> string" where
  "sub_sk [] = []"
| "sub_sk (c # cs) =
     (if c = CHR ''/'' \<and> take 2 cs = ''SK'' \<and> drop 2 cs \<noteq> [] \<and> is_digit (hd (drop 2 cs))
      then sub_sk (dropWhile is_digit (drop 2 cs))
      else c # sub_sk cs)"
  by pat_completeness auto
termination
proof (relation "measure length")
  fix c :: char and cs :: string
  have "length (dropWhile is_digit (drop 2 cs)) \<le> length (drop 2 cs)"
    by (rule length_dropWhile_le)
  then show "(dropWhile is_digit (drop 2 cs), c # cs) \<in> measure length"
    by simp
qed simp_all

text \<open>The identifier \<open>process_callsign\<close> looks up and stores.\<close>

definition clean_callsign :: "string \<Rightarrow> string" where
  "clean_callsign callsign = sub_sk (upper callsign)"

section \<open>Dates\<close>

text \<open>
  The current time, as \<open>datetime.now()\<close> gives it: a calendar date and the time of day
  in microseconds.
\<close>

record datetime =
  year :: nat
  month :: nat
  day :: nat
  micros :: nat

definition digits_val :: "string \<Rightarrow> nat" where
  "digits_val s = foldl (\<lambda>a c. 10 * a + (cp c - 48)) 0 s"

definition digit19 :: "char \<Rightarrow> bool" where
  "digit19 c = (49 \<le> cp c \<and> cp c \<le> 57)"

definition is_leap :: "nat \<Rightarrow> bool" where
  "is_leap y = (y mod 4 = 0 \<and> (y mod 100 \<noteq> 0 \<or> y mod 400 = 0))"

definition days_in_month :: "nat \<Rightarrow> nat \<Rightarrow> nat" where
  "days_in_month y m =
     (if m = 2 then (if is_leap y then 29 else 28)
      else if m = 4 \<or> m = 6 \<or> m = 9 \<or> m = 11 then 30 else 31)"

text \<open>
  \<open>datetime.strptime(s, '%Y-%m-%d')\<close>. The format compiles to the regular expression
  \<open>(\d\d\d\d)-(1[0-2]|0[1-9]|[1-9])-(3[0-1]|[1-2]\d|0[1-9]|[1-9]| [1-9])\<close>, matched at
  the start of the text; text left over after the match, and a date that does not exist,
  are errors too. Each matcher returns the value read and the rest of the text.
\<close>

definition match_year :: "string \<Rightarrow> (nat \<times> string) option" where
  "match_year s =
     (if 4 \<le> length s \<and> list_all is_digit (take 4 s)
      then Some (digits_val (take 4 s), drop 4 s) else None)"

definition match_dash :: "string \<Rightarrow> string option" where
  "match_dash s = (case s of [] \<Rightarrow> None | c # r \<Rightarrow> if c = CHR ''-'' then Some r else None)"

fun month2 :: "string \<Rightarrow> bool" where
  "month2 [a, b] =
     ((a = CHR ''1'' \<and> (b = CHR ''0'' \<or> b = CHR ''1'' \<or> b = CHR ''2''))
      \<or> (a = CHR ''0'' \<and> digit19 b))"
| "month2 _ = False"

text \<open>The month and the dash after it: the dash decides which alternative matches.\<close>

definition match_month_dash :: "string \<Rightarrow> (nat \<times> string) option" where
  "match_month_dash s =
     (if month2 (take 2 s) \<and> take 1 (drop 2 s) = ''-''
      then Some (digits_val (take 2 s), drop 3 s)
      else if s \<noteq> [] \<and> digit19 (hd s) \<and> take 1 (drop 1 s) = ''-''
      then Some (digits_val (take 1 s), drop 2 s)
      else None)"

fun day2 :: "string \<Rightarrow> bool" where
  "day2 [a, b] =
     ((a = CHR ''3'' \<and> (b = CHR ''0'' \<or> b = CHR ''1''))
      \<or> ((a = CHR ''1'' \<or> a = CHR ''2'') \<and> is_digit b)
      \<or> (a = CHR ''0'' \<and> digit19 b))"
| "day2 _ = False"

fun space_digit :: "string \<Rightarrow> bool" where
  "space_digit [a, b] = (a = CHR '' '' \<and> digit19 b)"
| "space_digit _ = False"

definition match_day :: "string \<Rightarrow> (nat \<times> string) option" where
  "match_day s =
     (if day2 (take 2 s) then Some (digits_val (take 2 s), drop 2 s)
      else if s \<noteq> [] \<and> digit19 (hd s) then Some (digits_val (take 1 s), drop 1 s)
      else if space_digit (take 2 s) then Some (digits_val (take 1 (drop 1 s)), drop 2 s)
      else None)"

definition no_match :: "string \<Rightarrow> py_exc" where
  "no_match s =
     ValueError (''time data '' @ quoted s @ '' does not match format '' @ quoted ''%Y-%m-%d'')"

definition strptime_str :: "string \<Rightarrow> py_exc + nat \<times> nat \<times> nat" where
  "strptime_str s =
     (case match_year s of
        None \<Rightarrow> Inl (no_match s)
      | Some (y, r1) \<Rightarrow>
     (case match_dash r1 of
        None \<Rightarrow> Inl (no_match s)
      | Some r2 \<Rightarrow>
     (case match_month_dash r2 of
        None \<Rightarrow> Inl (no_match s)
      | Some (m, r3) \<Rightarrow>
     (case match_day r3 of
        None \<Rightarrow> Inl (no_match s)
      | Some (d, r4) \<Rightarrow>
          if r4 \<noteq> [] then Inl (ValueError (''unconverted data remains: '' @ r4))
          else if y = 0 then Inl (ValueError ''year 0 is out of range'')
          else if days_in_month y m < d then Inl (ValueError ''day is out of range for month'')
          else Inr (y, m, d)))))"

text \<open>The argument is the record's \<open>license_end\<close>, which may be \<open>None\<close>.\<close>

definition strptime :: "string option \<Rightarrow> py_exc + nat \<times> nat \<times> nat" where
  "strptime x =
     (case x of
        None \<Rightarrow> Inl (TypeError ''strptime() argument 1 must be str, not None'')
      | Some s \<Rightarrow> strptime_str s)"

text \<open>\<open>d < datetime.now()\<close> for a parsed date \<open>d\<close>, which stands at midnight.\<close>

definition before_now :: "nat \<times> nat \<times> nat \<Rightarrow> datetime \<Rightarrow> bool" where
  "before_now d n =
     (case d of (y, m, dd) \<Rightarrow>
        y < year n \<or> (y = year n \<and> (m < month n \<or> (m = month n \<and>
          (dd < day n \<or> (dd = day n \<and> 0 < micros n))))))"

text \<open>\<open>datetime.now().strftime('%Y-%m-%d')\<close>, for a year of four digits.\<close>

definition digit_char :: "nat \<Rightarrow> char" where
  "digit_char k = char_of (48 + k mod 10)"

definition strftime_ymd :: "datetime \<Rightarrow> string" where
  "strftime_ymd n =
     [digit_char (year n div 1000), digit_char (year n div 100), digit_char (year n div 10),
      digit_char (year n)] @ ''-'' @
     [digit_char (month n div 10), digit_char (month n)] @ ''-'' @
     [digit_char (day n div 10), digit_char (day n)]"

section \<open>The store, the sinks and the environment\<close>

text \<open>
  A row of \<open>tbl_Operator\<close>, with the columns the script reads or writes. The table is a
  map from the \<open>Call\<close> column to the row: one row for each call, found by equality. The
  columns the script reads (\<open>FirstName\<close>, \<open>LastName\<close>, \<open>Status\<close>) hold text.
\<close>

record operator_row =
  FirstName :: string
  LastName :: string
  Address_1 :: "string option"
  City :: "string option"
  State :: "string option"
  Zip :: "string option"
  Lic_issued :: "string option"
  Lic_exp :: "string option"
  Class :: "string option"
  E_Mail :: "string option"
  Status :: string
  Updated :: "string option"

text \<open>
  A printed line. A debug trace, printed only when \<open>debug\<close> is set, is recorded by a
  label: the text of its SQL statement and parameters is not modelled.
\<close>

datatype out_line = Line string | Debug string

text \<open>
  Everything the script changes: the committed table, the console, and the two append-only
  files (the mismatch log and the status file).
\<close>

record world =
  db :: "string \<Rightarrow> operator_row option"
  stdout :: "out_line list"
  mismatch_log :: "string list"
  status_file :: "string list"

text \<open>
  What the database driver does on a connection: each of the four steps either succeeds
  (\<open>None\<close>) or raises \<open>pyodbc.Error\<close> with the given text. A connection that is closed
  without a commit leaves the table as it was.
\<close>

record db_faults =
  connect_err :: "string option"
  select_err :: "string option"
  execute_err :: "string option"
  commit_err :: "string option"

record env =
  NON_UPDATE_STATUSES :: "string list"
  now :: datetime
  faults :: db_faults

definition print_line :: "string \<Rightarrow> world \<Rightarrow> world" where
  "print_line l w = w\<lparr>stdout := stdout w @ [Line l]\<rparr>"

definition print_debug :: "bool \<Rightarrow> string list \<Rightarrow> world \<Rightarrow> world" where
  "print_debug dbg ls w = (if dbg then w\<lparr>stdout := stdout w @ map Debug ls\<rparr> else w)"

text \<open>\<open>WHERE Call=?\<close>: a NULL parameter matches no row.\<close>

definition select_row :: "world \<Rightarrow> string option \<Rightarrow> operator_row option" where
  "select_row w k = (case k of None \<Rightarrow> None | Some c \<Rightarrow> db w c)"

definition newline :: string where
  "newline = [CHR 0x0A]"

section \<open>Insert or update\<close>

text \<open>The row an \<open>UPDATE\<close> or \<open>INSERT\<close> writes, with the given status.\<close>

definition written_row :: "env \<Rightarrow> Callsign \<Rightarrow> string \<Rightarrow> operator_row" where
  "written_row ev callsign st =
     \<lparr> FirstName = first_name callsign,
       LastName = last_name callsign,
       Address_1 = address callsign,
       City = town callsign,
       State = state callsign,
       Zip = zip_code callsign,
       Lic_issued = license_start callsign,
       Lic_exp = license_end callsign,
       Class = Some (license_class callsign),
       E_Mail = email callsign,
       Status = st,
       Updated = Some (strftime_ymd (now ev)) \<rparr>"

text \<open>The table after the statement, for the row whose call is the record's.\<close>

definition write_row :: "Callsign \<Rightarrow> operator_row \<Rightarrow> (string \<Rightarrow> operator_row option)
    \<Rightarrow> (string \<Rightarrow> operator_row option)" where
  "write_row callsign r t = (case call callsign of None \<Rightarrow> t | Some c \<Rightarrow> t(c \<mapsto> r))"

text \<open>The handler of \<open>pyodbc.Error\<close> in \<open>insert_or_update_callsign_in_db\<close>.\<close>

definition report_insert_error :: "Callsign \<Rightarrow> string \<Rightarrow> world \<Rightarrow> world" where
  "report_insert_error callsign e w =
     print_line (''Error inserting or updating callsign '' @ fmt_opt (call callsign)
                 @ '' in database: '' @ e) w"

text \<open>\<open>conn.commit()\<close>: the pending table becomes the committed one, or the driver fails.\<close>

definition commit_insert :: "env \<Rightarrow> Callsign \<Rightarrow> (string \<Rightarrow> operator_row option) \<Rightarrow> world \<Rightarrow> world" where
  "commit_insert ev callsign pending w =
     (case commit_err (faults ev) of
        Some e \<Rightarrow> report_insert_error callsign e w
      | None \<Rightarrow> w\<lparr>db := pending\<rparr>)"

text \<open>
  \<open>cursor.execute(sql, params)\<close> with its debug traces, then the commit. A failing
  \<open>execute\<close> goes to the handler and the commit is not reached.
\<close>

definition execute_and_commit :: "env \<Rightarrow> Callsign \<Rightarrow> bool \<Rightarrow> string
    \<Rightarrow> (string \<Rightarrow> operator_row option) \<Rightarrow> world \<Rightarrow> world" where
  "execute_and_commit ev callsign dbg done pending w =
     (let w1 = print_debug dbg [''Executing SQL'', ''Parameters''] w
      in case execute_err (faults ev) of
           Some e \<Rightarrow> report_insert_error callsign e w1
         | None \<Rightarrow> commit_insert ev callsign pending (print_debug dbg [done] w1))"

definition names_match :: "string \<Rightarrow> string \<Rightarrow> Callsign \<Rightarrow> bool" where
  "names_match db_first_name db_last_name callsign =
     (normalize_first_name db_first_name = normalize_first_name (first_name callsign)
      \<and> lower db_last_name = lower (last_name callsign))"

definition mismatch_message :: "string \<Rightarrow> string \<Rightarrow> Callsign \<Rightarrow> string" where
  "mismatch_message db_first_name db_last_name callsign =
     ''No update performed for callsign '' @ fmt_opt (call callsign)
       @ '' due to mismatch in first or last name.'' @ newline
     @ (if normalize_name (lower db_first_name) \<noteq> normalize_name (lower (first_name callsign))
        then ''First name mismatch: DB = '' @ db_first_name @ '', QRZ = ''
             @ first_name callsign @ newline
        else [])
     @ (if lower db_last_name \<noteq> lower (last_name callsign)
        then ''Last name mismatch: DB = '' @ db_last_name @ '', QRZ = ''
             @ last_name callsign @ newline
        else [])"

text \<open>The branch for a call that is in the table; \<open>st\<close> is the status computed from the date.\<close>

definition existing_row :: "env \<Rightarrow> Callsign \<Rightarrow> bool \<Rightarrow> string \<Rightarrow> operator_row \<Rightarrow> world \<Rightarrow> world" where
  "existing_row ev callsign dbg st row w =
     (let db_first_name = rstrip_comma (FirstName row);
          db_last_name = LastName row;
          db_status = Status row
      in if names_match db_first_name db_last_name callsign then
           (if db_status \<notin> set (NON_UPDATE_STATUSES ev) then
              execute_and_commit ev callsign dbg ''Updated''
                (write_row callsign (written_row ev callsign st) (db w)) w
            else commit_insert ev callsign (db w) w)
         else
           (let m = mismatch_message db_first_name db_last_name callsign
            in commit_insert ev callsign (db w)
                 ((print_line m w)\<lparr>mismatch_log := mismatch_log w @ [m]\<rparr>)))"

text \<open>
  \<open>insert_or_update_callsign_in_db(callsign, debug, mismatch_log)\<close>. The result is the
  new world and the exception that leaves the function, if any. \<open>ValueError\<close> and
  \<open>TypeError\<close> from the date are caught by a plain \<open>return\<close>.
\<close>

definition insert_or_update_callsign_in_db :: "env \<Rightarrow> Callsign \<Rightarrow> bool \<Rightarrow> world
    \<Rightarrow> world \<times> py_exc option" where
  "insert_or_update_callsign_in_db ev callsign dbg w =
     (case connect_err (faults ev) of
        Some e \<Rightarrow> (report_insert_error callsign e w, None)
      | None \<Rightarrow>
     (case strptime (license_end callsign) of
        Inl (ValueError m) \<Rightarrow> (w, None)
      | Inl (TypeError m) \<Rightarrow> (w, None)
      | Inl e \<Rightarrow> (w, Some e)
      | Inr license_end_date \<Rightarrow>
     (let st = (if before_now license_end_date (now ev) then ''License Expired''
                else status callsign)
      in case select_err (faults ev) of
           Some e \<Rightarrow> (report_insert_error callsign e w, None)
         | None \<Rightarrow>
        (case select_row w (call callsign) of
           Some row \<Rightarrow> (existing_row ev callsign dbg st row w, None)
         | None \<Rightarrow>
             (execute_and_commit ev callsign dbg ''Inserted''
                (write_row callsign (written_row ev callsign ''New'') (db w)) w, None)))))"

section \<open>Deactivation\<close>

text \<open>\<open>update_callsign_status_to_inactive_if_needed(callsign, debug)\<close>.\<close>

definition report_inactive_error :: "string \<Rightarrow> world \<Rightarrow> world" where
  "report_inactive_error e w = print_line (''Error updating callsign status in database: '' @ e) w"

definition update_callsign_status_to_inactive_if_needed :: "env \<Rightarrow> string \<Rightarrow> bool \<Rightarrow> world
    \<Rightarrow> world \<times> py_exc option" where
  "update_callsign_status_to_inactive_if_needed ev callsign dbg w =
     (case connect_err (faults ev) of
        Some e \<Rightarrow> (report_inactive_error e w, None)
      | None \<Rightarrow>
     (case select_err (faults ev) of
        Some e \<Rightarrow> (report_inactive_error e w, None)
      | None \<Rightarrow>
     (case db w callsign of
        None \<Rightarrow> (w, None)
      | Some row \<Rightarrow>
          if Status row \<notin> set (NON_UPDATE_STATUSES ev) then
            (let w1 = print_debug dbg [''Executing SQL'', ''Parameters''] w
             in case execute_err (faults ev) of
                  Some e \<Rightarrow> (report_inactive_error e w1, None)
                | None \<Rightarrow>
               (case commit_err (faults ev) of
                  Some e \<Rightarrow> (report_inactive_error e w1, None)
                | None \<Rightarrow>
                    (print_debug dbg [''Status updated to Inactive'']
                       (w1\<lparr>db := (db w)(callsign \<mapsto>
                              row\<lparr>Status := ''Inactive'',
                                  Updated := Some (strftime_ymd (now ev))\<rparr>)\<rparr>), None)))
          else (w, None))))"

section \<open>Status audit\<close>

text \<open>
  \<open>check_callsign_status(callsign, parsed_data, update, debug, mismatch_log, status_file)\<close>.
  The date is parsed outside any handler for \<open>ValueError\<close> or \<open>TypeError\<close>, so a date
  that does not parse leaves the function as an exception.
\<close>

definition check_callsign_status :: "env \<Rightarrow> string \<Rightarrow> Callsign \<Rightarrow> bool \<Rightarrow> bool \<Rightarrow> world
    \<Rightarrow> world \<times> py_exc option" where
  "check_callsign_status ev callsign parsed_data update dbg w =
     (case connect_err (faults ev) of
        Some e \<Rightarrow> (print_line (''Error checking callsign status in database: '' @ e) w, None)
      | None \<Rightarrow>
     (case select_err (faults ev) of
        Some e \<Rightarrow> (print_line (''Error checking callsign status in database: '' @ e) w, None)
      | None \<Rightarrow>
     (case db w callsign of
        None \<Rightarrow> (w, None)
      | Some row \<Rightarrow>
     (case strptime (license_end parsed_data) of
        Inl e \<Rightarrow> (w, Some e)
      | Inr d \<Rightarrow>
          (let db_status = Status row;
               expected_status = (if before_now d (now ev) then ''License Expired'' else ''Active'')
           in if db_status \<noteq> expected_status then
                (let w1 = w\<lparr>status_file := status_file w @
                             [callsign @ '': Expected status '' @ expected_status
                              @ '', found '' @ db_status @ newline]\<rparr>;
                     w2 = print_debug dbg [''Status discrepancy''] w1
                 in if update \<and> db_status \<notin> set (NON_UPDATE_STATUSES ev)
                    then insert_or_update_callsign_in_db ev parsed_data dbg w2
                    else (w2, None))
              else (w, None))))))"

section \<open>Processing one identifier, and a batch\<close>

text \<open>
  \<open>get_callsign_data(session_key, callsign)\<close>. The parameter \<open>http\<close> stands for the
  request: the text of the response for a call, or the exception of a failed request.
\<close>

definition get_callsign_data :: "(string \<Rightarrow> py_exc + string) \<Rightarrow> string \<Rightarrow> py_exc + string" where
  "get_callsign_data http callsign =
     (case http callsign of
        Inl e \<Rightarrow> Inl e
      | Inr xml_data \<Rightarrow>
          if py_in ''<Error>'' xml_data
          then Inl (PyException (''Error: '' @ fmt_opt (extract_xml_value xml_data ''Error'')))
          else Inr xml_data)"

text \<open>The body of the \<open>try\<close> in \<open>process_callsign\<close>.\<close>

definition process_try :: "env \<Rightarrow> (string \<Rightarrow> py_exc + string) \<Rightarrow> string \<Rightarrow> bool \<Rightarrow> bool \<Rightarrow> bool
    \<Rightarrow> world \<Rightarrow> world \<times> py_exc option" where
  "process_try ev http cleaned_callsign update checkstatus dbg w =
     (case get_callsign_data http cleaned_callsign of
        Inl e \<Rightarrow> (w, Some e)
      | Inr callsign_data \<Rightarrow>
     (case parse_callsign_data callsign_data of
        Inl e \<Rightarrow> (w, Some e)
      | Inr parsed \<Rightarrow>
          (let parsed_data = parsed\<lparr>call := Some cleaned_callsign\<rparr>;
               w1 = print_debug dbg [''Fetched data''] w;
               (w2, r2) = (if checkstatus
                           then check_callsign_status ev cleaned_callsign parsed_data update dbg w1
                           else (w1, None))
           in case r2 of
                Some e \<Rightarrow> (w2, Some e)
              | None \<Rightarrow>
                  if update then insert_or_update_callsign_in_db ev parsed_data dbg w2
                  else (w2, None))))"

text \<open>
  \<open>process_callsign(session_key, callsign, update, checkstatus, debug, mismatch_log,
  status_file)\<close>: every exception of the body is caught; one whose text contains
  \<open>Not found\<close> leads to the deactivation, any other is printed.
\<close>

definition process_callsign :: "env \<Rightarrow> (string \<Rightarrow> py_exc + string) \<Rightarrow> string \<Rightarrow> bool \<Rightarrow> bool \<Rightarrow> bool
    \<Rightarrow> world \<Rightarrow> world \<times> py_exc option" where
  "process_callsign ev http callsign update checkstatus dbg w =
     (let cleaned_callsign = clean_callsign callsign
      in case process_try ev http cleaned_callsign update checkstatus dbg w of
           (w', None) \<Rightarrow> (w', None)
         | (w', Some e) \<Rightarrow>
             if py_in ''Not found'' (exc_str e)
             then update_callsign_status_to_inactive_if_needed ev cleaned_callsign dbg w'
             else (print_line (''Error fetching data for '' @ cleaned_callsign @ '': ''
                               @ exc_str e) w', None))"

text \<open>
  The loop \<open>for callsign in callsigns: process_callsign(...)\<close> of \<open>refresh_database\<close> and
  \<open>main\<close>. An exception that left \<open>process_callsign\<close> would end the loop. The environment
  (the clock and the driver's behaviour) may differ from one identifier to the next.
\<close>

fun process_all :: "(string \<Rightarrow> env) \<Rightarrow> (string \<Rightarrow> py_exc + string) \<Rightarrow> string list \<Rightarrow> bool \<Rightarrow> bool
    \<Rightarrow> bool \<Rightarrow> world \<Rightarrow> world \<times> py_exc option" where
  "process_all ev_of http [] update checkstatus dbg w = (w, None)"
| "process_all ev_of http (c # cs) update checkstatus dbg w =
     (case process_callsign (ev_of c) http c update checkstatus dbg w of
        (w', None) \<Rightarrow> process_all ev_of http cs update checkstatus dbg w'
      | (w', Some e) \<Rightarrow> (w', Some e))"

section \<open>Concrete inputs\<close>

text \<open>A driver on which every step succeeds.\<close>

definition no_faults :: db_faults where
  "no_faults = \<lparr> connect_err = None, select_err = None, execute_err = None, commit_err = None \<rparr>"

text \<open>The default configuration, on 3 November 2026.\<close>

definition example_env :: env where
  "example_env =
     \<lparr> NON_UPDATE_STATUSES = [''SK'', ''SILENT KEY''],
       now = \<lparr> year = 2026, month = 11, day = 3, micros = 5 \<rparr>,
       faults = no_faults \<rparr>"

definition example_row :: operator_row where
  "example_row =
     \<lparr> FirstName = ''Hiram'', LastName = ''Maxim'', Address_1 = None, City = None,
       State = None, Zip = None, Lic_issued = None, Lic_exp = None, Class = None,
       E_Mail = None, Status = ''Active'', Updated = None \<rparr>"

definition empty_world :: world where
  "empty_world = \<lparr> db = Map.empty, stdout = [], mismatch_log = [], status_file = [] \<rparr>"

definition example_world :: world where
  "example_world = empty_world\<lparr>db := [''W1AW'' \<mapsto> example_row]\<rparr>"

text \<open>A record whose license ended in 2020.\<close>

definition expired_record :: Callsign where
  "expired_record =
     \<lparr> call = Some ''W1AW'', xref = None, first_name = ''Hiram'', last_name = ''Maxim'',
       address = None, town = None, state = None, zip_code = None, country = None,
       license_start = Some ''2010-01-01'', license_end = Some ''2020-01-01'',
       license_class = ''Extra'', email = None, status = ''Active'' \<rparr>"

text \<open>A response that carries no \<open>expdate\<close> field.\<close>

definition no_expdate_xml :: string where
  "no_expdate_xml = ''<call>W1AW</call><fname>Hiram</fname><name>Maxim</name>''"

text \<open>A stored row for a silent key, and a record with the same names for that call.\<close>

definition sk_row :: operator_row where
  "sk_row = example_row\<lparr>Status := ''SK''\<rparr>"

definition sk_world :: world where
  "sk_world = empty_world\<lparr>db := [''KB7OUU'' \<mapsto> sk_row]\<rparr>"

definition sk_record :: Callsign where
  "sk_record = expired_record\<lparr>call := Some ''KB7OUU''\<rparr>"

text \<open>A stored row and a record whose first names differ in their second word only.\<close>

definition paul_row :: operator_row where
  "paul_row = example_row\<lparr>FirstName := ''John Paul'', LastName := ''Smith''\<rparr>"

definition paul_world :: world where
  "paul_world = empty_world\<lparr>db := [''W1AW'' \<mapsto> paul_row]\<rparr>"

definition peter_record :: Callsign where
  "peter_record = expired_record\<lparr>first_name := ''John Peter'', last_name := ''Smith''\<rparr>"

text \<open>The answer of the lookup service for a call it does not know.\<close>

definition not_found_http :: "string \<Rightarrow> py_exc + string" where
  "not_found_http c = Inr ''<Error>Not found: W1AW</Error>''"

text \<open>
  A stored row and a record whose first names have the same comparison form, and whose
  last names differ.
\<close>

definition initial_row :: operator_row where
  "initial_row = example_row\<lparr>FirstName := ''J John'', LastName := ''Smith''\<rparr>"

definition initial_world :: world where
  "initial_world = empty_world\<lparr>db := [''W1AW'' \<mapsto> initial_row]\<rparr>"

definition smyth_record :: Callsign where
  "smyth_record = expired_record\<lparr>first_name := ''John'', last_name := ''Smyth''\<rparr>"


section \<open>Words, title case and joining\<close>

lemma space_not_cased: "is_space c \<Longrightarrow> \<not> is_cased c"
  by (auto simp add: is_space_def is_cased_def)



lemma lower_char_space [simp]: "is_space (lower_char c) = is_space c"
  by (auto simp add: lower_char_def is_space_def is_upper_def cp_def)



lemma title_char_nonempty [simp]: "title_char c \<noteq> []"
  by (simp add: title_char_def)

lemma blank_is_space [simp]: "is_space CHR '' ''"
  by (simp add: is_space_def cp_def)

lemma blank_not_cased [simp]: "\<not> is_cased CHR '' ''"
  by (simp add: space_not_cased)


lemma title_from_Nil_iff [simp]: "title_from p s = [] \<longleftrightarrow> s = []"
  by (cases s) auto














section \<open>Projections of the helper operations\<close>

lemma print_line_fields [simp]:
  "db (print_line l w) = db w"
  "mismatch_log (print_line l w) = mismatch_log w"
  "status_file (print_line l w) = status_file w"
  "stdout (print_line l w) = stdout w @ [Line l]"
  by (simp_all add: print_line_def)

lemma print_debug_fields [simp]:
  "db (print_debug dbg ls w) = db w"
  "mismatch_log (print_debug dbg ls w) = mismatch_log w"
  "status_file (print_debug dbg ls w) = status_file w"
  by (simp_all add: print_debug_def)

lemma report_insert_error_fields [simp]:
  "db (report_insert_error cs e w) = db w"
  "mismatch_log (report_insert_error cs e w) = mismatch_log w"
  "status_file (report_insert_error cs e w) = status_file w"
  by (simp_all add: report_insert_error_def)

lemma report_inactive_error_fields [simp]:
  "db (report_inactive_error e w) = db w"
  "mismatch_log (report_inactive_error e w) = mismatch_log w"
  "status_file (report_inactive_error e w) = status_file w"
  by (simp_all add: report_inactive_error_def)

lemma commit_insert_fields [simp]:
  "db (commit_insert ev cs pending w) = (if commit_err (faults ev) = None then pending else db w)"
  "mismatch_log (commit_insert ev cs pending w) = mismatch_log w"
  "status_file (commit_insert ev cs pending w) = status_file w"
  by (simp_all add: commit_insert_def split: option.splits)

lemma execute_and_commit_fields [simp]:
  "db (execute_and_commit ev cs dbg l pending w) =
     (if execute_err (faults ev) = None \<and> commit_err (faults ev) = None then pending else db w)"
  "mismatch_log (execute_and_commit ev cs dbg l pending w) = mismatch_log w"
  "status_file (execute_and_commit ev cs dbg l pending w) = status_file w"
  by (simp_all add: execute_and_commit_def Let_def split: option.splits)

lemma strptime_raises:
  "strptime x = Inl e \<Longrightarrow> (\<exists>m. e = ValueError m) \<or> (\<exists>m. e = TypeError m)"
  by (auto simp add: strptime_def strptime_str_def no_match_def
      split: option.splits prod.splits if_splits)

lemma insert_or_update_no_exception:
  "snd (insert_or_update_callsign_in_db ev cs dbg w) = None"
  by (auto simp add: insert_or_update_callsign_in_db_def Let_def
      split: option.splits sum.splits py_exc.splits dest: strptime_raises)

lemma existing_row_db:
  "db (existing_row ev cs dbg st row w) =
     (if names_match (rstrip_comma (FirstName row)) (LastName row) cs
         \<and> Status row \<notin> set (NON_UPDATE_STATUSES ev)
         \<and> execute_err (faults ev) = None \<and> commit_err (faults ev) = None
      then write_row cs (written_row ev cs st) (db w) else db w)"
  by (simp add: existing_row_def Let_def)

lemma insert_or_update_keeps:
  assumes "db w k = Some r" and "Status r \<in> set (NON_UPDATE_STATUSES ev)"
  shows "db (fst (insert_or_update_callsign_in_db ev cs dbg w)) k = Some r"
  using assms
  by (auto simp add: insert_or_update_callsign_in_db_def Let_def existing_row_db
       select_row_def write_row_def
      split: option.splits sum.splits py_exc.splits)

lemma inactive_keeps:
  assumes "db w k = Some r" and "Status r \<in> set (NON_UPDATE_STATUSES ev)"
  shows "db (fst (update_callsign_status_to_inactive_if_needed ev c dbg w)) k = Some r"
  using assms
  by (auto simp add: update_callsign_status_to_inactive_if_needed_def Let_def
      split: option.splits)

lemma check_keeps:
  assumes "db w k = Some r" and "Status r \<in> set (NON_UPDATE_STATUSES ev)"
  shows "db (fst (check_callsign_status ev c cs update dbg w)) k = Some r"
  using assms
  by (auto simp add: check_callsign_status_def Let_def insert_or_update_keeps
      split: option.splits sum.splits)

lemma process_try_keeps:
  assumes "db w k = Some r" and "Status r \<in> set (NON_UPDATE_STATUSES ev)"
  shows "db (fst (process_try ev http c update checkstatus dbg w)) k = Some r"
proof (cases "get_callsign_data http c")
  case (Inl e)
  then show ?thesis by (simp add: process_try_def assms)
next
  case xml: (Inr callsign_data)
  show ?thesis
  proof (cases "parse_callsign_data callsign_data")
    case (Inl e)
    then show ?thesis by (simp add: process_try_def xml assms)
  next
    case (Inr parsed)
    define w1 where "w1 = print_debug dbg [''Fetched data''] w"
    define pd where "pd = parsed\<lparr>call := Some c\<rparr>"
    obtain w2 r2 where cr:
      "(if checkstatus then check_callsign_status ev c pd update dbg w1 else (w1, None)) = (w2, r2)"
      by (cases "if checkstatus then check_callsign_status ev c pd update dbg w1 else (w1, None)")
    have "db w1 k = Some r"
      by (simp add: w1_def assms)
    then have "db (fst (if checkstatus then check_callsign_status ev c pd update dbg w1
                        else (w1, None))) k = Some r"
      by (simp add: check_keeps assms)
    then have w2: "db w2 k = Some r"
      by (simp add: cr)
    have "process_try ev http c update checkstatus dbg w =
            (case r2 of Some e \<Rightarrow> (w2, Some e)
             | None \<Rightarrow> if update then insert_or_update_callsign_in_db ev pd dbg w2 else (w2, None))"
      using cr unfolding w1_def pd_def
      by (cases checkstatus; cases update)
         (simp_all add: process_try_def xml Inr Let_def split: option.splits)
    then show ?thesis
      using w2 by (simp add: insert_or_update_keeps assms split: option.splits)
  qed
qed

lemma process_callsign_keeps:
  assumes "db w k = Some r" and "Status r \<in> set (NON_UPDATE_STATUSES ev)"
  shows "db (fst (process_callsign ev http raw update checkstatus dbg w)) k = Some r"
proof -
  obtain w' r' where pt:
    "process_try ev http (clean_callsign raw) update checkstatus dbg w = (w', r')"
    by (cases "process_try ev http (clean_callsign raw) update checkstatus dbg w")
  have "db (fst (process_try ev http (clean_callsign raw) update checkstatus dbg w)) k = Some r"
    by (rule process_try_keeps) (rule assms)+
  then have "db w' k = Some r"
    by (simp add: pt)
  then show ?thesis
    by (simp add: process_callsign_def Let_def pt inactive_keeps assms split: option.splits)
qed

lemma process_all_keeps:
  assumes "\<And>c. Status r \<in> set (NON_UPDATE_STATUSES (ev_of c))"
  shows "db w k = Some r \<Longrightarrow>
         db (fst (process_all ev_of http cs update checkstatus dbg w)) k = Some r"
proof (induction cs arbitrary: w)
  case Nil
  then show ?case by simp
next
  case (Cons c cs)
  obtain w' r' where pc: "process_callsign (ev_of c) http c update checkstatus dbg w = (w', r')"
    by (cases "process_callsign (ev_of c) http c update checkstatus dbg w")
  have "db (fst (process_callsign (ev_of c) http c update checkstatus dbg w)) k = Some r"
    by (rule process_callsign_keeps) (simp_all add: Cons.prems assms)
  then have "db w' k = Some r"
    by (simp add: pc)
  then show ?case
    by (cases r') (simp_all add: pc Cons.IH)
qed

lemma inactive_no_exception:
  "snd (update_callsign_status_to_inactive_if_needed ev c dbg w) = None"
  by (simp add: update_callsign_status_to_inactive_if_needed_def Let_def split: option.splits)

lemma process_callsign_no_exception:
  "snd (process_callsign ev http raw update checkstatus dbg w) = None"
  by (simp add: process_callsign_def Let_def inactive_no_exception split: prod.splits option.splits)


section \<open>Supporting facts\<close>

text \<open>\<open>split\<close> with a separator never returns an empty list.\<close>

lemma split_on_acc_nonempty: "split_on_acc d s cur \<noteq> []"
  by (induction s arbitrary: cur) auto

lemma split_on_nonempty: "split_on d s \<noteq> []"
  by (simp add: split_on_def split_on_acc_nonempty)

text \<open>The start index of the extractor is never \<open>-1\<close>, so only the end marker decides.\<close>

lemma find_from_lower_bound: "- 1 \<le> find_from sub s i"
  by (induction s arbitrary: i) auto

lemma extract_xml_value_present:
  "extract_xml_value xml_data field \<noteq> None \<longleftrightarrow> py_find xml_data (''</'' @ field @ ''>'') \<noteq> - 1"
proof -
  have "- 1 \<le> py_find xml_data (''<'' @ field @ ''>'')"
    by (simp add: py_find_def find_from_lower_bound)
  then have "py_find xml_data (''<'' @ field @ ''>'') + int (length (''<'' @ field @ ''>'')) \<noteq> - 1"
    by simp
  then show ?thesis
    by (simp add: extract_xml_value_def Let_def)
qed

text \<open>
  A license end that does not parse: the insert-or-update path returns without a trace,
  the status audit lets the exception out when the call has a stored row.
\<close>

lemma unparseable_date_skipped:
  assumes "strptime (license_end callsign) = Inl e"
    and "connect_err (faults ev) = None"
  shows "insert_or_update_callsign_in_db ev callsign dbg w = (w, None)"
  using assms strptime_raises [OF assms(1)]
  by (auto simp add: insert_or_update_callsign_in_db_def)

lemma unparseable_date_leaves_audit:
  assumes "strptime (license_end parsed_data) = Inl e"
    and "connect_err (faults ev) = None"
    and "select_err (faults ev) = None"
    and "db w c = Some row"
  shows "check_callsign_status ev c parsed_data update dbg w = (w, Some e)"
  using assms by (simp add: check_callsign_status_def)

text \<open>
  A write that fails, at the statement or at the commit, leaves the table as it was, and
  a batch runs to its end whatever the driver and the lookup do.
\<close>

lemma failed_write_not_committed:
  assumes "execute_err (faults ev) \<noteq> None \<or> commit_err (faults ev) \<noteq> None"
  shows "db (fst (insert_or_update_callsign_in_db ev callsign dbg w)) = db w"
    and "db (fst (update_callsign_status_to_inactive_if_needed ev c dbg w)) = db w"
  using assms
  by (auto simp add: insert_or_update_callsign_in_db_def existing_row_db
      update_callsign_status_to_inactive_if_needed_def Let_def
      split: option.splits sum.splits py_exc.splits)

lemma process_all_no_exception:
  "snd (process_all ev_of http cs update checkstatus dbg w) = None"
proof (induction cs arbitrary: w)
  case Nil
  then show ?case by simp
next
  case (Cons c cs)
  obtain w' r' where pc: "process_callsign (ev_of c) http c update checkstatus dbg w = (w', r')"
    by (cases "process_callsign (ev_of c) http c update checkstatus dbg w")
  have "snd (process_callsign (ev_of c) http c update checkstatus dbg w) = None"
    by (rule process_callsign_no_exception)
  then have "r' = None"
    by (simp add: pc)
  then show ?case
    by (simp add: pc Cons.IH)
qed

section \<open>The claims\<close>

text \<open>
  C1. A record whose license end is absent or does not parse leads to no insert, no update
  and no mismatch entry, and the skip is not reported as an error. The insert-or-update
  path does skip in silence, but the status audit parses the same date outside any handler:
  with \<open>checkstatus\<close> set and a stored row for the call, the record without a license end
  ends in an error line on the console. The theorem evaluates that run.
\<close>

theorem unparseable_date_reported_by_audit:
  "map_sum exc_str license_end (parse_callsign_data no_expdate_xml) = Inr None
   \<and> stdout (fst (process_callsign example_env (\<lambda>c. Inr no_expdate_xml) ''W1AW''
                     True False False example_world)) = []
   \<and> stdout (fst (process_callsign example_env (\<lambda>c. Inr no_expdate_xml) ''W1AW''
                     False True False example_world))
       = [Line ''Error fetching data for W1AW: strptime() argument 1 must be str, not None'']"
  by code_simp

text \<open>
  C2. A record with a parseable license end and no stored row is inserted, and the stored
  status is \<open>New\<close> whatever the date says, when the driver does not fail.
\<close>

theorem insert_forces_status_new:
  assumes "strptime (license_end callsign) = Inr d"
    and "call callsign = Some c"
    and "db w c = None"
    and "faults ev = no_faults"
  shows "db (fst (insert_or_update_callsign_in_db ev callsign dbg w)) =
           (db w)(c \<mapsto>
             \<lparr> FirstName = first_name callsign, LastName = last_name callsign,
               Address_1 = address callsign, City = town callsign, State = state callsign,
               Zip = zip_code callsign, Lic_issued = license_start callsign,
               Lic_exp = license_end callsign, Class = Some (license_class callsign),
               E_Mail = email callsign, Status = ''New'',
               Updated = Some (strftime_ymd (now ev)) \<rparr>)
         \<and> mismatch_log (fst (insert_or_update_callsign_in_db ev callsign dbg w)) = mismatch_log w
         \<and> snd (insert_or_update_callsign_in_db ev callsign dbg w) = None"
  using assms
  by (simp add: insert_or_update_callsign_in_db_def no_faults_def select_row_def write_row_def
      written_row_def)

theorem insert_forces_status_new_witness:
  "before_now (2020, 1, 1) (now example_env)
   \<and> map_option Status
        (db (fst (insert_or_update_callsign_in_db example_env expired_record False empty_world))
           ''W1AW'') = Some ''New''"
proof -
  have h1: "strptime (license_end expired_record) = Inr (2020, 1, 1)"
    by code_simp
  have h2: "call expired_record = Some ''W1AW''"
    by (simp add: expired_record_def)
  have h3: "db empty_world ''W1AW'' = None"
    by (simp add: empty_world_def)
  have h4: "faults example_env = no_faults"
    by (simp add: example_env_def)
  have "before_now (2020, 1, 1) (now example_env)"
    by (simp add: before_now_def example_env_def)
  then show ?thesis
    using insert_forces_status_new [OF h1 h2 h3 h4, of False] by simp
qed

text \<open>
  C3. A stored row whose status is in the protected set is never written: it is the same
  after an insert-or-update, after the deactivation, after the status audit, after
  processing any identifier and after any batch; and an insert-or-update for that call with
  matching names changes nothing at all.
\<close>

theorem protected_record_never_written:
  assumes "db w k = Some r"
    and "Status r \<in> set (NON_UPDATE_STATUSES ev)"
  shows "db (fst (insert_or_update_callsign_in_db ev callsign dbg w)) k = Some r
       \<and> db (fst (update_callsign_status_to_inactive_if_needed ev c dbg w)) k = Some r
       \<and> db (fst (check_callsign_status ev c callsign update dbg w)) k = Some r
       \<and> db (fst (process_callsign ev http raw update checkstatus dbg w)) k = Some r
       \<and> db (fst (process_all (\<lambda>x. ev) http cs update checkstatus dbg w)) k = Some r
       \<and> (call callsign = Some k \<longrightarrow>
            names_match (rstrip_comma (FirstName r)) (LastName r) callsign \<longrightarrow>
            faults ev = no_faults \<longrightarrow>
            insert_or_update_callsign_in_db ev callsign dbg w = (w, None))"
proof -
  have noop: "insert_or_update_callsign_in_db ev callsign dbg w = (w, None)"
    if "call callsign = Some k"
      and "names_match (rstrip_comma (FirstName r)) (LastName r) callsign"
      and "faults ev = no_faults"
    using that assms
    by (auto simp add: insert_or_update_callsign_in_db_def no_faults_def select_row_def
        existing_row_def commit_insert_def Let_def
        split: sum.splits py_exc.splits dest: strptime_raises)
  show ?thesis
    using assms noop
    by (simp add: insert_or_update_keeps inactive_keeps check_keeps process_callsign_keeps
        process_all_keeps)
qed

theorem protected_record_never_written_witness:
  "db sk_world ''KB7OUU'' = Some sk_row
   \<and> Status sk_row \<in> set (NON_UPDATE_STATUSES example_env)
   \<and> db (fst (process_callsign example_env (\<lambda>c. Inr ''<Error>Not found: KB7OUU</Error>'')
               ''KB7OUU/SK2025'' True True False sk_world)) ''KB7OUU'' = Some sk_row
   \<and> insert_or_update_callsign_in_db example_env sk_record False sk_world = (sk_world, None)"
proof -
  have h1: "db sk_world ''KB7OUU'' = Some sk_row"
    by (simp add: sk_world_def)
  have h2: "Status sk_row \<in> set (NON_UPDATE_STATUSES example_env)"
    by (simp add: sk_row_def example_env_def)
  have h3: "call sk_record = Some ''KB7OUU''"
    by (simp add: sk_record_def)
  have h4: "names_match (rstrip_comma (FirstName sk_row)) (LastName sk_row) sk_record"
    by code_simp
  have h5: "faults example_env = no_faults"
    by (simp add: example_env_def)
  show ?thesis
    using h1 h2 h3 h4 h5
      protected_record_never_written [OF h1 h2, of sk_record False "''KB7OUU''" True
        "\<lambda>c. Inr ''<Error>Not found: KB7OUU</Error>''" "''KB7OUU/SK2025''" True "[]"]
    by simp
qed

text \<open>
  C4. When the lookup fails, nothing leaves \<open>process_callsign\<close> as an exception and the
  two files are untouched. If the text of the error contains \<open>Not found\<close>: a stored row
  with a status outside the protected set gets the status \<open>Inactive\<close> and the date of the
  day, when the driver does not fail; with no stored row the table stays as it was. Any
  other error is printed and nothing else changes.
\<close>

theorem lookup_failure_handling:
  assumes "get_callsign_data http (clean_callsign raw) = Inl e"
  shows "snd (process_callsign ev http raw update checkstatus dbg w) = None
    \<and> mismatch_log (fst (process_callsign ev http raw update checkstatus dbg w)) = mismatch_log w
    \<and> status_file (fst (process_callsign ev http raw update checkstatus dbg w)) = status_file w
    \<and> (py_in ''Not found'' (exc_str e) \<longrightarrow>
         (\<forall>row. db w (clean_callsign raw) = Some row \<longrightarrow>
                Status row \<notin> set (NON_UPDATE_STATUSES ev) \<longrightarrow> faults ev = no_faults \<longrightarrow>
                db (fst (process_callsign ev http raw update checkstatus dbg w)) =
                  (db w)(clean_callsign raw \<mapsto>
                     row\<lparr>Status := ''Inactive'', Updated := Some (strftime_ymd (now ev))\<rparr>))
         \<and> (db w (clean_callsign raw) = None \<longrightarrow>
                db (fst (process_callsign ev http raw update checkstatus dbg w)) = db w))
    \<and> (\<not> py_in ''Not found'' (exc_str e) \<longrightarrow>
         fst (process_callsign ev http raw update checkstatus dbg w) =
           print_line (''Error fetching data for '' @ clean_callsign raw @ '': '' @ exc_str e) w)"
proof -
  have pt: "process_try ev http (clean_callsign raw) update checkstatus dbg w = (w, Some e)"
    by (simp add: process_try_def assms)
  have pc: "process_callsign ev http raw update checkstatus dbg w =
      (if py_in ''Not found'' (exc_str e)
       then update_callsign_status_to_inactive_if_needed ev (clean_callsign raw) dbg w
       else (print_line (''Error fetching data for '' @ clean_callsign raw @ '': '' @ exc_str e) w,
             None))"
    by (simp add: process_callsign_def Let_def pt)
  show ?thesis
    unfolding pc
    by (auto simp add: update_callsign_status_to_inactive_if_needed_def Let_def no_faults_def
        split: option.splits)
qed

theorem lookup_failure_handling_witness:
  "db (fst (process_callsign example_env not_found_http ''w1aw'' True False False example_world)) =
     (db example_world)(''W1AW'' \<mapsto>
        example_row\<lparr>Status := ''Inactive'', Updated := Some (strftime_ymd (now example_env))\<rparr>)
   \<and> db (fst (process_callsign example_env not_found_http ''w1aw'' True False False empty_world)) =
       db empty_world
   \<and> fst (process_callsign example_env (\<lambda>c. Inl (RequestException ''timed out'')) ''w1aw''
             True False False example_world) =
       print_line ''Error fetching data for W1AW: timed out'' example_world"
proof -
  have cc: "clean_callsign ''w1aw'' = ''W1AW''"
    by code_simp
  have h1: "get_callsign_data not_found_http (clean_callsign ''w1aw'') =
      Inl (PyException ''Error: Not found: W1AW'')"
    by code_simp
  have nf: "py_in ''Not found'' (exc_str (PyException ''Error: Not found: W1AW''))"
    by code_simp
  have h2: "get_callsign_data (\<lambda>c. Inl (RequestException ''timed out'')) (clean_callsign ''w1aw'') =
      Inl (RequestException ''timed out'')"
    by (simp add: get_callsign_data_def)
  have other: "\<not> py_in ''Not found'' (exc_str (RequestException ''timed out''))"
    by code_simp
  have row: "db example_world ''W1AW'' = Some example_row"
    by (simp add: example_world_def)
  have st: "Status example_row \<notin> set (NON_UPDATE_STATUSES example_env)"
    by (simp add: example_row_def example_env_def)
  have fl: "faults example_env = no_faults"
    by (simp add: example_env_def)
  have none: "db empty_world ''W1AW'' = None"
    by (simp add: empty_world_def)
  have a: "db (fst (process_callsign example_env not_found_http ''w1aw'' True False False
                     example_world)) =
      (db example_world)(''W1AW'' \<mapsto>
        example_row\<lparr>Status := ''Inactive'', Updated := Some (strftime_ymd (now example_env))\<rparr>)"
    using lookup_failure_handling [OF h1, of example_env True False False example_world]
      nf row st fl
    by (simp add: cc)
  have b: "db (fst (process_callsign example_env not_found_http ''w1aw'' True False False
                     empty_world)) = db empty_world"
    using lookup_failure_handling [OF h1, of example_env True False False empty_world] nf none
    by (simp add: cc)
  have c: "fst (process_callsign example_env (\<lambda>c. Inl (RequestException ''timed out'')) ''w1aw''
             True False False example_world) =
       print_line ''Error fetching data for W1AW: timed out'' example_world"
    using lookup_failure_handling [OF h2, of example_env True False False example_world] other
    by (simp add: cc)
  from a b c show ?thesis by simp
qed

text \<open>
  C5. When the names fail the comparison, nothing is inserted or updated and the mismatch
  report holds the pair of first names exactly when the first names differ, the pair of
  last names exactly when the last names differ. The comparison and the report use two
  different tests for the first name: the comparison form decides the match, the first
  word of the lower-cased name decides the report. The theorem evaluates two runs. In the
  first the comparison forms of the first names differ and the last names agree, and the
  report holds neither pair. In the second the comparison forms of the first names agree
  and the last names differ, and the report holds both pairs.
\<close>

theorem mismatch_report_out_of_step:
  "normalize_first_name (rstrip_comma (FirstName paul_row))
     \<noteq> normalize_first_name (first_name peter_record)
   \<and> lower (LastName paul_row) = lower (last_name peter_record)
   \<and> mismatch_log (fst (insert_or_update_callsign_in_db example_env peter_record False
                          paul_world))
      = [''No update performed for callsign W1AW due to mismatch in first or last name.''
           @ newline]
   \<and> db (fst (insert_or_update_callsign_in_db example_env peter_record False paul_world))
        ''W1AW'' = Some paul_row
   \<and> normalize_first_name (rstrip_comma (FirstName initial_row))
       = normalize_first_name (first_name smyth_record)
   \<and> mismatch_log (fst (insert_or_update_callsign_in_db example_env smyth_record False
                          initial_world))
      = [''No update performed for callsign W1AW due to mismatch in first or last name.''
           @ newline
         @ ''First name mismatch: DB = J John, QRZ = John'' @ newline
         @ ''Last name mismatch: DB = Smith, QRZ = Smyth'' @ newline]"
  by code_simp




text \<open>
  C7. The identifier is the upper-cased input with the trailing silent-key suffix removed.
  The substitution removes every occurrence of the pattern, not only a trailing one, and
  what it leaves can itself end in the pattern. The theorem evaluates the three cases.
\<close>

theorem clean_callsign_not_only_suffix:
  "clean_callsign ''KB7OUU/SK2025'' = ''KB7OUU''
   \<and> clean_callsign ''KB7OUU/SK2025/P'' = ''KB7OUU/P''
   \<and> clean_callsign ''A/S/SK1K1'' = ''A/SK1''"
  by code_simp

text \<open>
  C8. The extractor returns the text between the markers, and nothing when either marker
  is missing. With the start marker missing and the end marker present, the start index is
  the length of the opening tag minus one, which is never \<open>-1\<close>, and a text is returned.
\<close>

theorem extract_without_start_marker:
  "py_find ''<a b><call>W1AW</call></a>'' ''<a>'' = - 1
   \<and> extract_xml_value ''<a b><call>W1AW</call></a>'' ''a'' = Some '' b><call>W1AW</call>''"
  by code_simp

text \<open>
  C9, as amended. The five codes map to Extra, General, Technician, Advanced and Club, and
  every other code, an absent one too, maps to \<open>Unknown Class\<close>; so the result is always
  one of six fixed values.
\<close>

theorem map_license_class_total:
  "map_license_class code =
     (if code = Some ''E'' then ''Extra''
      else if code = Some ''G'' then ''General''
      else if code = Some ''T'' then ''Technician''
      else if code = Some ''A'' then ''Advanced''
      else if code = Some ''C'' then ''Club''
      else ''Unknown Class'')
   \<and> map_license_class code \<in>
       {''Extra'', ''General'', ''Technician'', ''Advanced'', ''Club'', ''Unknown Class''}"
  by (cases code) (auto simp add: map_license_class_def class_map_def)

text \<open>C9 as stated fails: an unknown code and an absent code do not map to \<open>Unknown\<close>.\<close>

theorem map_license_class_not_unknown:
  "map_license_class (Some ''X'') \<noteq> ''Unknown'' \<and> map_license_class None \<noteq> ''Unknown''"
  by (simp add: map_license_class_def class_map_def)

text \<open>
  C10. A persistence failure is reported with the identifier in the message. The handler
  of the deactivation prints a message without it: here the \<open>UPDATE\<close> for W1AW fails, the
  row stays as it was, and the printed line does not contain the call.
\<close>

theorem inactive_error_without_identifier:
  "stdout (fst (update_callsign_status_to_inactive_if_needed
             (example_env\<lparr>faults := no_faults\<lparr>execute_err := Some ''connection lost''\<rparr>\<rparr>)
             ''W1AW'' False example_world))
     = [Line ''Error updating callsign status in database: connection lost'']
   \<and> \<not> py_in ''W1AW'' ''Error updating callsign status in database: connection lost''
   \<and> db (fst (update_callsign_status_to_inactive_if_needed
             (example_env\<lparr>faults := no_faults\<lparr>execute_err := Some ''connection lost''\<rparr>\<rparr>)
             ''W1AW'' False example_world)) ''W1AW'' = Some example_row"
  by code_simp

end
